theory Spec2Isabelle
  imports Complex_Main "HOL-Library.Product_Lexorder" "HOL-Library.AList" "HOL-Library.Multiset"
begin

section \<open>Panel layout engine: rafters, mounts and joints\<close>

text \<open>
  A shallow embedding of the layout engine (\<^verbatim>\<open>models.py\<close>, \<^verbatim>\<open>config.py\<close>,
  \<^verbatim>\<open>rafters.py\<close>, \<^verbatim>\<open>mounts.py\<close>, \<^verbatim>\<open>joints.py\<close>, \<^verbatim>\<open>layout_service.py\<close>).

  Numbers: Python's \<^verbatim>\<open>float\<close> is modelled by \<^typ>\<open>real\<close>, that is, by exact arithmetic.
  Every comparison, sum and quotient of the source is the same operation on reals;
  binary representation error, NaN, infinities and signed zero are outside the model.
  \<^verbatim>\<open>round(v)\<close> and \<^verbatim>\<open>round(v, 4)\<close> round to the nearest integer, resp. to the nearest
  multiple of \<open>1/10000\<close>, with ties going to the even neighbour.

  Errors: every \<^verbatim>\<open>raise\<close> is a value \<open>Inl e\<close> of a sum type. The two \<^verbatim>\<open>while\<close> loops of
  \<^verbatim>\<open>BuildGrid\<close> need not terminate (for a spacing that is not positive), so they
  and their callers return an \<open>option\<close>, where \<open>None\<close> stands for "does not return".
\<close>

subsection \<open>Errors\<close>

text \<open>
  \<^verbatim>\<open>LayoutValidationError\<close> carries a message; the constructors of \<open>message\<close> are the
  message templates of the source with the numbers they interpolate.
  \<^verbatim>\<open>ValueError\<close> is raised by \<^verbatim>\<open>BuildGrid\<close> alone.
\<close>

datatype message =
    MissingCoordinate
  | NegativeCoordinate real real
  | DuplicatePanel real real
  | OverlappingPanels real real real real
  | NoPanels
  | NoRafterInSpan real real
  | LeftCantileverExceeded real
  | RightCantileverExceeded real
  | SpanLimitExceeded real

datatype error = LayoutValidationError message | ValueError

subsection \<open>Rounding\<close>

definition py_round :: "real \<Rightarrow> int" where
  "py_round v =
     (let f = \<lfloor>v\<rfloor>; d = v - of_int f
      in if d < 1 / 2 then f
         else if 1 / 2 < d then f + 1
         else if even f then f else f + 1)"

definition round4 :: "real \<Rightarrow> real" where
  "round4 v = of_int (py_round (v * 10000)) / 10000"

subsection \<open>Data model (\<^verbatim>\<open>models.py\<close>)\<close>

record PanelDimensions =
  dim_width :: real
  dim_height :: real

record Panel =
  panel_x :: real
  panel_y :: real
  panel_width :: real
  panel_height :: real

definition RightEdge :: "Panel \<Rightarrow> real" where
  "RightEdge p = panel_x p + panel_width p"

definition BottomEdge :: "Panel \<Rightarrow> real" where
  "BottomEdge p = panel_y p + panel_height p"

record Mount =
  mount_x :: real
  mount_y :: real

record Joint =
  joint_x :: real
  joint_y :: real

record LayoutResult =
  mounts :: "Mount list"
  joints :: "Joint list"

definition MountCount :: "LayoutResult \<Rightarrow> nat" where
  "MountCount r = length (mounts r)"

definition JointCount :: "LayoutResult \<Rightarrow> nat" where
  "JointCount r = length (joints r)"

record LayoutContext =
  result :: LayoutResult
  panels :: "Panel list"
  rafters :: "real list"

subsection \<open>Configuration (\<^verbatim>\<open>config.py\<close>)\<close>

text \<open>
  The settings are frozen dataclasses; the records below are their fields, and
  \<open>default_config\<close> holds the default values. Constructing \<^verbatim>\<open>ValidationSettings\<close> raises
  unless \<^verbatim>\<open>coordinate_tolerance\<close> is positive; no property below depends on that.
\<close>

record PanelSettings =
  cfg_width :: real
  cfg_height :: real

record RafterSettings =
  spacing :: real
  rafter_edge_clearance :: real

record MountSettings =
  span_limit :: real
  cantilever_limit :: real
  mount_edge_clearance :: real

record JointSettings =
  horizontal_gap_threshold :: real
  vertical_tolerance :: real

record ValidationSettings =
  allow_negative_coordinates :: bool
  allow_duplicates :: bool
  allow_overlaps :: bool
  coordinate_tolerance :: real

record LayoutConfig =
  panel :: PanelSettings
  rafter_settings :: RafterSettings
  mount_settings :: MountSettings
  joint_settings :: JointSettings
  validation :: ValidationSettings

definition default_config :: LayoutConfig where
  "default_config =
     \<lparr>panel = \<lparr>cfg_width = 44.7, cfg_height = 71.1\<rparr>,
      rafter_settings = \<lparr>spacing = 16, rafter_edge_clearance = 2\<rparr>,
      mount_settings = \<lparr>span_limit = 48, cantilever_limit = 16, mount_edge_clearance = 2\<rparr>,
      joint_settings = \<lparr>horizontal_gap_threshold = 1, vertical_tolerance = 0.5\<rparr>,
      validation = \<lparr>allow_negative_coordinates = False, allow_duplicates = False,
                    allow_overlaps = False, coordinate_tolerance = 1 / 10000\<rparr>\<rparr>"

subsection \<open>Rafter grid (\<^verbatim>\<open>rafters.py\<close>)\<close>

record RafterGrid =
  positions :: "real list"

definition PositionsInRange :: "RafterGrid \<Rightarrow> real \<Rightarrow> real \<Rightarrow> real list" where
  "PositionsInRange grid start_x end_x =
     filter (\<lambda>v. start_x - 1 / 1000000 \<le> v \<and> v \<le> end_x + 1 / 1000000) (positions grid)"

text \<open>
  The two loops of \<^verbatim>\<open>BuildGrid\<close> below add and subtract the spacing exactly. The source
  rounds each sum to binary floating point: its loops compute the same values whenever
  these are representable (as for the multiples of \<open>1/16\<close> of moderate magnitude), and may
  otherwise differ in the last place of a value and, where the spacing is below half a
  unit in the last place of the coordinate, make no progress. What is proved below of a
  grid that \<^verbatim>\<open>BuildGrid\<close> returns uses the order of the values only; that it returns is
  stated for exactly representable inputs.
\<close>

text \<open>
  The first loop of \<^verbatim>\<open>BuildGrid\<close>:
  \<^verbatim>\<open>while first_rafter - self.spacing > min_x - self.spacing * 2: first_rafter -= self.spacing\<close>
\<close>

partial_function (option) BuildGrid_anchor :: "real \<Rightarrow> real \<Rightarrow> real \<Rightarrow> real option" where
  "BuildGrid_anchor sp min_x first_rafter =
     (if first_rafter - sp > min_x - sp * 2
      then BuildGrid_anchor sp min_x (first_rafter - sp)
      else Some first_rafter)"

declare BuildGrid_anchor.simps [code]

text \<open>
  The second loop:
  \<^verbatim>\<open>while current <= limit: positions.append(round(current, 4)); current += self.spacing\<close>
\<close>

partial_function (option) BuildGrid_fill :: "real \<Rightarrow> real \<Rightarrow> real \<Rightarrow> real list \<Rightarrow> real list option" where
  "BuildGrid_fill sp limit current ps =
     (if current \<le> limit
      then BuildGrid_fill sp limit (current + sp) (ps @ [round4 current])
      else Some ps)"

declare BuildGrid_fill.simps [code]

definition BuildGrid :: "RafterSettings \<Rightarrow> real \<Rightarrow> real \<Rightarrow> (error + RafterGrid) option" where
  "BuildGrid rs min_x max_x =
     (if min_x > max_x then Some (Inl ValueError)
      else
        (case BuildGrid_anchor (spacing rs) min_x (min_x + rafter_edge_clearance rs) of
           None \<Rightarrow> None
         | Some first_rafter \<Rightarrow>
             (case BuildGrid_fill (spacing rs) (max_x + spacing rs * 2) first_rafter [] of
                None \<Rightarrow> None
              | Some ps \<Rightarrow> Some (Inr \<lparr>positions = ps\<rparr>))))"

subsection \<open>Mounts (\<^verbatim>\<open>mounts.py\<close>)\<close>

definition CalculatePanelMounts :: "MountSettings \<Rightarrow> Panel \<Rightarrow> RafterGrid \<Rightarrow> error + Mount list" where
  "CalculatePanelMounts ms p grid =
     (let allowed_start = panel_x p + mount_edge_clearance ms;
          allowed_end = RightEdge p - mount_edge_clearance ms;
          rs = PositionsInRange grid allowed_start allowed_end
      in if rs = [] then Inl (LayoutValidationError (NoRafterInSpan allowed_start allowed_end))
         else if hd rs - panel_x p - mount_edge_clearance ms > cantilever_limit ms
           then Inl (LayoutValidationError (LeftCantileverExceeded (panel_x p)))
         else if RightEdge p - mount_edge_clearance ms - last rs > cantilever_limit ms
           then Inl (LayoutValidationError (RightCantileverExceeded (panel_x p)))
         else if list_ex (\<lambda>(first, second). second - first > span_limit ms + 1 / 1000000)
                   (zip rs (tl rs))
           then Inl (LayoutValidationError (SpanLimitExceeded (panel_x p)))
         else Inr (map (\<lambda>v. \<lparr>mount_x = v, mount_y = panel_y p\<rparr>) rs
                   @ map (\<lambda>v. \<lparr>mount_x = v, mount_y = BottomEdge p\<rparr>) rs))"

text \<open>The loop of \<^verbatim>\<open>CalculateMounts\<close>, with the list \<^verbatim>\<open>mounts\<close> built so far.\<close>

fun CalculateMounts_loop ::
  "MountSettings \<Rightarrow> RafterGrid \<Rightarrow> Panel list \<Rightarrow> Mount list \<Rightarrow> error + Mount list" where
  "CalculateMounts_loop ms grid [] acc = Inr acc"
| "CalculateMounts_loop ms grid (p # rest) acc =
     (case CalculatePanelMounts ms p grid of
        Inl e \<Rightarrow> Inl e
      | Inr panel_mounts \<Rightarrow> CalculateMounts_loop ms grid rest (acc @ panel_mounts))"

definition CalculateMounts :: "MountSettings \<Rightarrow> Panel list \<Rightarrow> RafterGrid \<Rightarrow> error + Mount list" where
  "CalculateMounts ms ps grid = CalculateMounts_loop ms grid ps []"

subsection \<open>Joints (\<^verbatim>\<open>joints.py\<close>)\<close>

text \<open>
  \<^verbatim>\<open>row_map\<close> and \<^verbatim>\<open>joints\<close> are dictionaries, which keep their keys in insertion
  order: association lists, where \<^const>\<open>AList.update\<close> overwrites the value of a key
  in place and appends a new key at the end.
\<close>

definition FindRowKey :: "(real \<times> Panel list) list \<Rightarrow> real \<Rightarrow> real \<Rightarrow> real" where
  "FindRowKey row_map y_value tolerance =
     (case find (\<lambda>key. \<bar>key - y_value\<bar> \<le> tolerance) (map fst row_map) of
        Some key \<Rightarrow> key
      | None \<Rightarrow> y_value)"

text \<open>\<^verbatim>\<open>row_map.setdefault(row_key, []).append(panel)\<close>\<close>

definition row_append :: "real \<Rightarrow> Panel \<Rightarrow> (real \<times> Panel list) list \<Rightarrow> (real \<times> Panel list) list" where
  "row_append row_key p row_map =
     AList.update row_key ((case map_of row_map row_key of None \<Rightarrow> [] | Some ps \<Rightarrow> ps) @ [p]) row_map"

fun group_rows :: "real \<Rightarrow> Panel list \<Rightarrow> (real \<times> Panel list) list \<Rightarrow> (real \<times> Panel list) list" where
  "group_rows tolerance [] row_map = row_map"
| "group_rows tolerance (p # rest) row_map =
     group_rows tolerance rest (row_append (FindRowKey row_map (panel_y p) tolerance) p row_map)"

type_synonym joint_map = "((real \<times> real) \<times> Joint) list"

text \<open>The body of the inner loop over \<^verbatim>\<open>zip(row_panels, row_panels[1:])\<close>.\<close>

definition pair_step :: "real \<Rightarrow> real \<Rightarrow> Panel \<times> Panel \<Rightarrow> joint_map \<Rightarrow> joint_map" where
  "pair_step threshold row_key lr js =
     (let left = fst lr; right = snd lr;
          gap = panel_x right - RightEdge left
      in if gap \<ge> threshold then js
         else
           (let seam_x = (RightEdge left + panel_x right) / 2;
                top_joint = \<lparr>joint_x = round4 seam_x, joint_y = round4 row_key\<rparr>;
                bottom_joint = \<lparr>joint_x = round4 seam_x, joint_y = round4 (row_key + panel_height left)\<rparr>
            in AList.update (joint_x bottom_joint, joint_y bottom_joint) bottom_joint
                 (AList.update (joint_x top_joint, joint_y top_joint) top_joint js)))"

definition row_step :: "real \<Rightarrow> real \<times> Panel list \<Rightarrow> joint_map \<Rightarrow> joint_map" where
  "row_step threshold kv js =
     (let row_key = fst kv; row_panels = sort_key panel_x (snd kv)
      in fold (pair_step threshold row_key) (zip row_panels (tl row_panels)) js)"

definition CalculateJoints :: "JointSettings \<Rightarrow> Panel list \<Rightarrow> Joint list" where
  "CalculateJoints jset ps =
     (let row_map = group_rows (vertical_tolerance jset) ps [];
          js = fold (row_step (horizontal_gap_threshold jset)) row_map []
      in sort_key (\<lambda>item. (joint_y item, joint_x item)) (map snd js))"

subsection \<open>Panels and the orchestrator (\<^verbatim>\<open>layout_service.py\<close>)\<close>

text \<open>A panel spec is a mapping from key names to numbers; a key may be absent.\<close>

type_synonym spec = "string \<rightharpoonup> real"

definition ValidateCoordinateBounds :: "ValidationSettings \<Rightarrow> real \<Rightarrow> real \<Rightarrow> real \<Rightarrow> error + unit" where
  "ValidateCoordinateBounds v x_value y_value tolerance =
     (if allow_negative_coordinates v then Inr ()
      else if x_value < - tolerance \<or> y_value < - tolerance
        then Inl (LayoutValidationError (NegativeCoordinate x_value y_value))
      else Inr ())"

definition QuantizeCoordinate :: "real \<Rightarrow> real \<Rightarrow> real \<Rightarrow> int \<times> int" where
  "QuantizeCoordinate x_value y_value tolerance =
     (let scale = max tolerance (1 / 1000000000)
      in (py_round (x_value / scale), py_round (y_value / scale)))"

definition RectanglesOverlap :: "Panel \<Rightarrow> Panel \<Rightarrow> real \<Rightarrow> bool" where
  "RectanglesOverlap first second tolerance =
     (let separated_horizontally =
            (RightEdge first \<le> panel_x second + tolerance
             \<or> RightEdge second \<le> panel_x first + tolerance);
          separated_vertically =
            (BottomEdge first \<le> panel_y second + tolerance
             \<or> BottomEdge second \<le> panel_y first + tolerance)
      in \<not> (separated_horizontally \<or> separated_vertically))"

fun ValidateNoOverlap :: "Panel list \<Rightarrow> real \<Rightarrow> error + unit" where
  "ValidateNoOverlap [] tolerance = Inr ()"
| "ValidateNoOverlap (first # rest) tolerance =
     (case find (\<lambda>second. RectanglesOverlap first second tolerance) rest of
        Some second \<Rightarrow>
          Inl (LayoutValidationError
                 (OverlappingPanels (panel_x first) (panel_y first) (panel_x second) (panel_y second)))
      | None \<Rightarrow> ValidateNoOverlap rest tolerance)"

text \<open>
  The loop of \<^verbatim>\<open>BuildPanels\<close> over the specs, with the list \<^verbatim>\<open>panels\<close> and the set
  \<^verbatim>\<open>seen_positions\<close> built so far.
\<close>

fun BuildPanels_loop ::
  "PanelDimensions \<Rightarrow> ValidationSettings \<Rightarrow> spec list \<Rightarrow> Panel list \<Rightarrow> (int \<times> int) set
     \<Rightarrow> error + Panel list" where
  "BuildPanels_loop dims v [] ps seen_positions = Inr ps"
| "BuildPanels_loop dims v (item # rest) ps seen_positions =
     (case (item ''x'', item ''y'') of
        (Some x_value, Some y_value) \<Rightarrow>
          (case ValidateCoordinateBounds v x_value y_value (coordinate_tolerance v) of
             Inl e \<Rightarrow> Inl e
           | Inr _ \<Rightarrow>
               (let p = \<lparr>panel_x = x_value, panel_y = y_value,
                         panel_width = dim_width dims, panel_height = dim_height dims\<rparr>
                in if \<not> allow_duplicates v then
                     (let key = QuantizeCoordinate x_value y_value (coordinate_tolerance v)
                      in if key \<in> seen_positions
                         then Inl (LayoutValidationError (DuplicatePanel x_value y_value))
                         else BuildPanels_loop dims v rest (ps @ [p]) (insert key seen_positions))
                   else BuildPanels_loop dims v rest (ps @ [p]) seen_positions))
      | _ \<Rightarrow> Inl (LayoutValidationError MissingCoordinate))"

definition BuildPanels :: "PanelDimensions \<Rightarrow> ValidationSettings \<Rightarrow> spec list \<Rightarrow> error + Panel list" where
  "BuildPanels dims v specs =
     (case BuildPanels_loop dims v specs [] {} of
        Inl e \<Rightarrow> Inl e
      | Inr ps \<Rightarrow>
          (case (if \<not> allow_overlaps v then ValidateNoOverlap ps (coordinate_tolerance v) else Inr ()) of
             Inl e \<Rightarrow> Inl e
           | Inr _ \<Rightarrow> Inr (sort_key (\<lambda>p. (panel_y p, panel_x p)) ps)))"

text \<open>
  \<^verbatim>\<open>LayoutCalculator.__init__\<close> copies the settings of the configuration into its
  components; the model passes the configuration itself.
\<close>

text \<open>
  Lines 107 to 113 of \<^verbatim>\<open>CalculateLayoutDetailed\<close>: the extent, the grid, the mounts and
  the joints of a validated panel list that is not empty.
\<close>

definition layout_of_panels :: "LayoutConfig \<Rightarrow> Panel list \<Rightarrow> (error + LayoutContext) option" where
  "layout_of_panels cfg ps =
     (let min_x = Min (set (map panel_x ps));
          max_x = Max (set (map RightEdge ps))
      in case BuildGrid (rafter_settings cfg) min_x max_x of
           None \<Rightarrow> None
         | Some (Inl e) \<Rightarrow> Some (Inl e)
         | Some (Inr grid) \<Rightarrow>
             (case CalculateMounts (mount_settings cfg) ps grid of
                Inl e \<Rightarrow> Some (Inl e)
              | Inr ms \<Rightarrow>
                  Some (Inr \<lparr>result = \<lparr>mounts = ms,
                                        joints = CalculateJoints (joint_settings cfg) ps\<rparr>,
                             panels = ps, rafters = positions grid\<rparr>)))"

definition config_dimensions :: "LayoutConfig \<Rightarrow> PanelDimensions" where
  "config_dimensions cfg = \<lparr>dim_width = cfg_width (panel cfg), dim_height = cfg_height (panel cfg)\<rparr>"

definition CalculateLayoutDetailed :: "LayoutConfig \<Rightarrow> spec list \<Rightarrow> (error + LayoutContext) option" where
  "CalculateLayoutDetailed cfg specs =
     (case BuildPanels (config_dimensions cfg) (validation cfg) specs of
        Inl e \<Rightarrow> Some (Inl e)
      | Inr ps \<Rightarrow>
          if ps = [] then Some (Inl (LayoutValidationError NoPanels))
          else layout_of_panels cfg ps)"

definition CalculateLayout :: "LayoutConfig \<Rightarrow> spec list \<Rightarrow> (error + LayoutResult) option" where
  "CalculateLayout cfg specs =
     (case CalculateLayoutDetailed cfg specs of
        None \<Rightarrow> None
      | Some (Inl e) \<Rightarrow> Some (Inl e)
      | Some (Inr ctx) \<Rightarrow> Some (Inr (result ctx)))"

subsection \<open>Configurations and inputs of the scenarios\<close>

text \<open>The default configuration with \<^verbatim>\<open>rafter_factory.spacing = 200.0\<close>.\<close>

definition spacing_200_config :: LayoutConfig where
  "spacing_200_config = default_config\<lparr>rafter_settings := \<lparr>spacing = 200, rafter_edge_clearance = 2\<rparr>\<rparr>"

definition point_spec :: "real \<Rightarrow> real \<Rightarrow> spec" where
  "point_spec a b = [''x'' \<mapsto> a, ''y'' \<mapsto> b]"

definition grid_2x2 :: "spec list" where
  "grid_2x2 = [point_spec 0 0, point_spec 44.7 0, point_spec 0 71.1, point_spec 44.7 71.1]"

definition two_panels :: "spec list" where
  "two_panels = [point_spec 0 0, point_spec 44.7 0]"

definition default_joints :: JointSettings where
  "default_joints = \<lparr>horizontal_gap_threshold = 1, vertical_tolerance = 0.5\<rparr>"

definition panel_at :: "real \<Rightarrow> real \<Rightarrow> Panel" where
  "panel_at a b = \<lparr>panel_x = a, panel_y = b, panel_width = 44.7, panel_height = 71.1\<rparr>"

subsection \<open>Auxiliary notions for the proofs\<close>

text \<open>
  What the loop of \<^verbatim>\<open>BuildPanels\<close> checks of one spec, the quantized key it records and
  the panel it appends. The last two read the coordinates with \<^const>\<open>the\<close> and are used
  for specs that satisfy the first only.
\<close>

definition spec_ok :: "ValidationSettings \<Rightarrow> spec \<Rightarrow> bool" where
  "spec_ok v item =
     (case (item ''x'', item ''y'') of
        (Some a, Some b) \<Rightarrow> ValidateCoordinateBounds v a b (coordinate_tolerance v) = Inr ()
      | _ \<Rightarrow> False)"

definition spec_key :: "ValidationSettings \<Rightarrow> spec \<Rightarrow> int \<times> int" where
  "spec_key v item =
     QuantizeCoordinate (the (item ''x'')) (the (item ''y'')) (coordinate_tolerance v)"

definition spec_panel :: "PanelDimensions \<Rightarrow> spec \<Rightarrow> Panel" where
  "spec_panel dims item =
     \<lparr>panel_x = the (item ''x''), panel_y = the (item ''y''),
      panel_width = dim_width dims, panel_height = dim_height dims\<rparr>"

text \<open>
  Lines 24 to 26 and 44 to 48 of \<^verbatim>\<open>_CalculatePanelMounts\<close>: the rafters selected for a
  panel, and the mounts returned for it when no check raises.
\<close>

definition panel_rafters :: "MountSettings \<Rightarrow> RafterGrid \<Rightarrow> Panel \<Rightarrow> real list" where
  "panel_rafters ms grid p =
     PositionsInRange grid (panel_x p + mount_edge_clearance ms) (RightEdge p - mount_edge_clearance ms)"

definition panel_mounts :: "MountSettings \<Rightarrow> RafterGrid \<Rightarrow> Panel \<Rightarrow> Mount list" where
  "panel_mounts ms grid p =
     map (\<lambda>v. \<lparr>mount_x = v, mount_y = panel_y p\<rparr>) (panel_rafters ms grid p)
     @ map (\<lambda>v. \<lparr>mount_x = v, mount_y = BottomEdge p\<rparr>) (panel_rafters ms grid p)"

text \<open>
  Lines 30 to 36 of \<^verbatim>\<open>CalculateJoints\<close>: the joints one adjacent pair contributes, and
  the adjacent pairs of a row. \<open>store_joint\<close> is one assignment \<^verbatim>\<open>joints[(j.x, j.y)] = j\<close>;
  in a well-keyed joint map every entry is stored under the coordinates of its joint.
\<close>

definition pair_joints :: "real \<Rightarrow> real \<Rightarrow> Panel \<times> Panel \<Rightarrow> Joint list" where
  "pair_joints threshold row_key lr =
     (let left = fst lr; right = snd lr;
          gap = panel_x right - RightEdge left
      in if gap \<ge> threshold then []
         else
           (let seam_x = (RightEdge left + panel_x right) / 2
            in [\<lparr>joint_x = round4 seam_x, joint_y = round4 row_key\<rparr>,
                \<lparr>joint_x = round4 seam_x, joint_y = round4 (row_key + panel_height left)\<rparr>]))"

definition well_keyed :: "joint_map \<Rightarrow> bool" where
  "well_keyed js = (\<forall>(k, j)\<in>set js. k = (joint_x j, joint_y j))"

definition store_joint :: "Joint \<Rightarrow> joint_map \<Rightarrow> joint_map" where
  "store_joint j js = AList.update (joint_x j, joint_y j) j js"

definition row_pairs :: "Panel list \<Rightarrow> (Panel \<times> Panel) list" where
  "row_pairs row_panels = zip (sort_key panel_x row_panels) (tl (sort_key panel_x row_panels))"



section \<open>Properties\<close>

subsection \<open>Joints of fewer than two panels\<close>

lemma CalculateJoints_Nil: "CalculateJoints jset [] = []"
  by (simp add: CalculateJoints_def)

lemma CalculateJoints_single: "CalculateJoints jset [p] = []"
  by (simp add: CalculateJoints_def row_append_def row_step_def FindRowKey_def)

text \<open>
  C10: for every panel sequence with fewer than two panels (empty or a single panel),
  \<^verbatim>\<open>CalculateJoints\<close> returns the empty list, whatever the configuration. The model of
  \<^verbatim>\<open>CalculateJoints\<close> has no error value, as the source has no \<^verbatim>\<open>raise\<close> on this path.
\<close>

theorem C10_few_panels_no_joints:
  "length ps < 2 \<Longrightarrow> CalculateJoints jset ps = []"
proof (cases ps)
  case Nil
  then show ?thesis by (simp add: CalculateJoints_Nil)
next
  case (Cons p rest)
  assume "length ps < 2"
  with Cons have "rest = []" by simp
  with Cons show ?thesis by (simp add: CalculateJoints_single)
qed

theorem C10_few_panels_no_joints_witness:
  "length [\<lparr>panel_x = 0, panel_y = 0, panel_width = 44.7, panel_height = 71.1\<rparr>] < 2
   \<and> CalculateJoints \<lparr>horizontal_gap_threshold = 1, vertical_tolerance = 0.5\<rparr>
        [\<lparr>panel_x = 0, panel_y = 0, panel_width = 44.7, panel_height = 71.1\<rparr>] = []"
  using C10_few_panels_no_joints
    [of "[\<lparr>panel_x = 0, panel_y = 0, panel_width = 44.7, panel_height = 71.1\<rparr>]"
        "\<lparr>horizontal_gap_threshold = 1, vertical_tolerance = 0.5\<rparr>"]
  by simp

subsection \<open>The scenario with rafter spacing 200\<close>

lemma spacing_200_grid:
  "BuildGrid \<lparr>spacing = 200, rafter_edge_clearance = 2\<rparr> 3 47.7
     = Some (Inr \<lparr>positions = [- 395, - 195, 5, 205, 405]\<rparr>)"
  by (simp add: BuildGrid_def BuildGrid_anchor.simps BuildGrid_fill.simps round4_def
      py_round_def Let_def)

text \<open>
  C1, as stated, fails: with spacing 200 and the panel spec \<open>(3, 0)\<close> the grid is
  \<open>[-395, -195, 5, 205, 405]\<close>, and the allowed window \<open>[5, 45.7]\<close> of the panel contains the
  grid position \<open>5\<close>; the run does not raise the no-rafter-in-span error.
\<close>

theorem C1_window_has_rafter_counterexample:
  "BuildGrid (rafter_settings spacing_200_config) 3 (3 + 44.7)
     = Some (Inr \<lparr>positions = [- 395, - 195, 5, 205, 405]\<rparr>)
   \<and> PositionsInRange \<lparr>positions = [- 395, - 195, 5, 205, 405]\<rparr> (3 + 2) (3 + 44.7 - 2) = [5]
   \<and> CalculateLayout spacing_200_config [point_spec 3 0]
       \<noteq> Some (Inl (LayoutValidationError (NoRafterInSpan (3 + 2) (3 + 44.7 - 2))))"
  by code_simp

text \<open>
  C1, amended: with the default configuration except rafter spacing 200,
  \<^verbatim>\<open>CalculateLayout\<close> on the single panel spec \<open>(3, 0)\<close> raises a
  \<^verbatim>\<open>LayoutValidationError\<close>, namely the right-cantilever error for the panel at \<open>x = 3\<close>:
  the only rafter in the window is at \<open>5\<close>, and \<open>45.7 - 5\<close> exceeds the cantilever limit 16.
\<close>

theorem C1_spacing_200_right_cantilever:
  "CalculateLayout spacing_200_config [point_spec 3 0]
     = Some (Inl (LayoutValidationError (RightCantileverExceeded 3)))"
  by code_simp

subsection \<open>The 2 x 2 scenario\<close>

lemma grid_2x2_joints:
  "map_option (map_sum id joints) (CalculateLayout default_config grid_2x2)
     = Some (Inr [\<lparr>joint_x = 44.7, joint_y = 0\<rparr>, \<lparr>joint_x = 44.7, joint_y = 71.1\<rparr>,
                  \<lparr>joint_x = 44.7, joint_y = 142.2\<rparr>])"
  by code_simp

text \<open>
  C2: with the default configuration, \<^verbatim>\<open>CalculateLayout\<close> on the four specs
  \<open>(0,0)\<close>, \<open>(44.7,0)\<close>, \<open>(0,71.1)\<close>, \<open>(44.7,71.1)\<close> succeeds and returns exactly three joints,
  \<open>(44.7, 0)\<close>, \<open>(44.7, 71.1)\<close> and \<open>(44.7, 142.2)\<close>: the seam point \<open>(44.7, 71.1)\<close>, which the
  pair of the first row (key \<open>0\<close>) contributes as its bottom joint and the pair of the second
  row (key \<open>71.1\<close>) as its top joint, occurs once.
\<close>

theorem C2_grid_2x2_three_joints:
  "\<exists>r. CalculateLayout default_config grid_2x2 = Some (Inr r)
       \<and> JointCount r = 3
       \<and> joints r = [\<lparr>joint_x = 44.7, joint_y = 0\<rparr>, \<lparr>joint_x = 44.7, joint_y = 71.1\<rparr>,
                      \<lparr>joint_x = 44.7, joint_y = 142.2\<rparr>]
       \<and> \<lparr>joint_x = 44.7, joint_y = 71.1\<rparr> \<in> set (joints r)
       \<and> distinct (joints r)
       \<and> \<lparr>joint_x = 44.7, joint_y = 71.1\<rparr>
            \<in> set (pair_joints (horizontal_gap_threshold (joint_settings default_config)) 0
                     (panel_at 0 0, panel_at 44.7 0))
       \<and> \<lparr>joint_x = 44.7, joint_y = 71.1\<rparr>
            \<in> set (pair_joints (horizontal_gap_threshold (joint_settings default_config)) 71.1
                     (panel_at 0 71.1, panel_at 44.7 71.1))"
proof -
  have rows:
    "\<lparr>joint_x = 44.7, joint_y = 71.1\<rparr>
       \<in> set (pair_joints (horizontal_gap_threshold (joint_settings default_config)) 0
                (panel_at 0 0, panel_at 44.7 0))"
    "\<lparr>joint_x = 44.7, joint_y = 71.1\<rparr>
       \<in> set (pair_joints (horizontal_gap_threshold (joint_settings default_config)) 71.1
                (panel_at 0 71.1, panel_at 44.7 71.1))"
    by (simp_all add: pair_joints_def panel_at_def default_config_def RightEdge_def round4_def
        py_round_def Let_def)
  from grid_2x2_joints obtain r where
    r: "CalculateLayout default_config grid_2x2 = Some (Inr r)"
    and j: "joints r = [\<lparr>joint_x = 44.7, joint_y = 0\<rparr>, \<lparr>joint_x = 44.7, joint_y = 71.1\<rparr>,
                        \<lparr>joint_x = 44.7, joint_y = 142.2\<rparr>]"
    by (cases "CalculateLayout default_config grid_2x2") (auto simp: map_sum_def split: sum.splits)
  from j have "JointCount r = 3" by (simp add: JointCount_def)
  moreover from j have "\<lparr>joint_x = 44.7, joint_y = 71.1\<rparr> \<in> set (joints r)" by simp
  moreover from j have "distinct (joints r)" by simp
  ultimately show ?thesis using r j rows by blast
qed

subsection \<open>Building panels\<close>

lemma BuildPanels_loop_iff:
  "BuildPanels_loop dims v specs acc seen = Inr ps \<longleftrightarrow>
     (\<forall>item\<in>set specs. spec_ok v item)
     \<and> (\<not> allow_duplicates v \<longrightarrow>
          distinct (map (spec_key v) specs) \<and> set (map (spec_key v) specs) \<inter> seen = {})
     \<and> ps = acc @ map (spec_panel dims) specs"
proof (induction specs arbitrary: acc seen)
  case Nil
  show ?case by auto
next
  case (Cons item rest)
  show ?case
  proof (cases "spec_ok v item")
    case False
    then have "BuildPanels_loop dims v (item # rest) acc seen \<noteq> Inr ps"
      by (auto simp: spec_ok_def split: option.splits sum.splits)
    with False show ?thesis by simp
  next
    case True
    then obtain a b where ab: "item ''x'' = Some a" "item ''y'' = Some b"
      "ValidateCoordinateBounds v a b (coordinate_tolerance v) = Inr ()"
      by (auto simp: spec_ok_def split: option.splits)
    show ?thesis
      using True ab Cons.IH
      by (auto simp: spec_key_def spec_panel_def Let_def)
  qed
qed

lemma BuildPanels_loop_not_NoPanels:
  "BuildPanels_loop dims v specs acc seen \<noteq> Inl (LayoutValidationError NoPanels)"
  by (induction specs arbitrary: acc seen)
     (auto simp: ValidateCoordinateBounds_def Let_def split: option.splits sum.splits if_splits)

lemma ValidateNoOverlap_not_NoPanels:
  "ValidateNoOverlap ps tol \<noteq> Inl (LayoutValidationError NoPanels)"
  by (induction ps) (auto split: option.splits)

lemma BuildPanels_not_NoPanels:
  "BuildPanels dims v specs \<noteq> Inl (LayoutValidationError NoPanels)"
  using BuildPanels_loop_not_NoPanels [of dims v specs "[]" "{}"]
    ValidateNoOverlap_not_NoPanels
  by (auto simp: BuildPanels_def split: sum.splits if_splits)

lemma BuildPanels_length:
  "BuildPanels dims v specs = Inr ps \<Longrightarrow> length ps = length specs"
  by (auto simp: BuildPanels_def BuildPanels_loop_iff split: sum.splits if_splits)

lemma BuildPanels_Nil: "BuildPanels dims v [] = Inr []"
  by (simp add: BuildPanels_def)

subsection \<open>The empty-input error\<close>

lemma CalculatePanelMounts_not_NoPanels:
  "CalculatePanelMounts ms p grid \<noteq> Inl (LayoutValidationError NoPanels)"
  by (simp add: CalculatePanelMounts_def Let_def)

lemma CalculateMounts_loop_not_NoPanels:
  "CalculateMounts_loop ms grid ps acc \<noteq> Inl (LayoutValidationError NoPanels)"
  by (induction ps arbitrary: acc) (auto simp: CalculatePanelMounts_not_NoPanels split: sum.splits)

lemma BuildGrid_not_validation:
  "BuildGrid rs a b \<noteq> Some (Inl (LayoutValidationError m))"
  by (auto simp: BuildGrid_def split: option.splits)

lemma layout_of_panels_not_NoPanels:
  "layout_of_panels cfg ps \<noteq> Some (Inl (LayoutValidationError NoPanels))"
  using BuildGrid_not_validation CalculateMounts_loop_not_NoPanels
  by (auto simp: layout_of_panels_def Let_def CalculateMounts_def split: option.splits sum.splits)

subsection \<open>Rounding is monotone\<close>

lemma py_round_mono: "a \<le> b \<Longrightarrow> py_round a \<le> py_round b"
proof -
  assume ab: "a \<le> b"
  have fl: "\<lfloor>a\<rfloor> \<le> \<lfloor>b\<rfloor>" using ab by (rule floor_mono)
  show ?thesis
  proof (cases "\<lfloor>a\<rfloor> = \<lfloor>b\<rfloor>")
    case True
    with ab show ?thesis unfolding py_round_def Let_def by auto
  next
    case False
    with fl have "\<lfloor>a\<rfloor> + 1 \<le> \<lfloor>b\<rfloor>" by simp
    moreover have "py_round a \<le> \<lfloor>a\<rfloor> + 1" unfolding py_round_def Let_def by auto
    moreover have "\<lfloor>b\<rfloor> \<le> py_round b" unfolding py_round_def Let_def by auto
    ultimately show ?thesis by linarith
  qed
qed

lemma round4_mono: "a \<le> b \<Longrightarrow> round4 a \<le> round4 b"
  unfolding round4_def using py_round_mono [of "a * 10000" "b * 10000"]
  by (simp add: divide_right_mono)

subsection \<open>The loops of \<^verbatim>\<open>BuildGrid\<close>\<close>






lemma fill_negative_spacing:
  assumes "BuildGrid_fill sp limit current acc = Some ps"
  shows "sp < 0 \<Longrightarrow> limit < current \<and> ps = acc"
proof (induct rule: BuildGrid_fill.raw_induct [OF _ assms])
  case (1 fill sp limit current acc ps)
  show ?case
  proof (cases "current \<le> limit")
    case True
    with 1(2) have "fill sp limit (current + sp) (acc @ [round4 current]) = Some ps" by simp
    from 1(1) [OF this 1(3)] 1(3) True show ?thesis by simp
  next
    case False
    with 1(2) show ?thesis by simp
  qed
qed

lemma fill_sorted_nonneg:
  assumes "BuildGrid_fill sp limit current acc = Some ps"
  shows "0 \<le> sp \<Longrightarrow> sorted acc \<Longrightarrow> \<forall>a\<in>set acc. a \<le> round4 current \<Longrightarrow> sorted ps"
proof (induct rule: BuildGrid_fill.raw_induct [OF _ assms])
  case (1 fill sp limit current acc ps)
  show ?case
  proof (cases "current \<le> limit")
    case False
    with 1(2) 1(4) show ?thesis by simp
  next
    case True
    with 1(2) have call: "fill sp limit (current + sp) (acc @ [round4 current]) = Some ps" by simp
    from 1(3) have "round4 current \<le> round4 (current + sp)" by (intro round4_mono) simp
    with 1(4,5) have "sorted (acc @ [round4 current])"
      "\<forall>a\<in>set (acc @ [round4 current]). a \<le> round4 (current + sp)"
      by (auto simp: sorted_append)
    from 1(1) [OF call 1(3) this] show ?thesis .
  qed
qed

lemma fill_sorted:
  assumes "BuildGrid_fill sp limit current [] = Some ps"
  shows "sorted ps"
proof (cases "0 \<le> sp")
  case True
  from fill_sorted_nonneg [OF assms True] show ?thesis by simp
next
  case False
  with fill_negative_spacing [OF assms] show ?thesis by simp
qed

lemma BuildGrid_sorted:
  assumes "BuildGrid rs min_x max_x = Some (Inr grid)"
  shows "sorted (positions grid)"
  using assms fill_sorted
  by (auto simp: BuildGrid_def split: if_splits option.splits)















subsection \<open>The structure of the mounts\<close>

lemma CalculatePanelMounts_Inr:
  "CalculatePanelMounts ms p grid = Inr pm \<Longrightarrow> pm = panel_mounts ms grid p"
  by (auto simp: CalculatePanelMounts_def panel_mounts_def panel_rafters_def Let_def
      split: if_splits)

lemma CalculateMounts_loop_Inr:
  "CalculateMounts_loop ms grid ps acc = Inr res \<Longrightarrow>
     res = acc @ concat (map (panel_mounts ms grid) ps)"
proof (induction ps arbitrary: acc)
  case Nil
  then show ?case by simp
next
  case (Cons p rest)
  from Cons.prems obtain pm where
    pm: "CalculatePanelMounts ms p grid = Inr pm"
    and rest: "CalculateMounts_loop ms grid rest (acc @ pm) = Inr res"
    by (auto split: sum.splits)
  from Cons.IH [OF rest] CalculatePanelMounts_Inr [OF pm] show ?case by simp
qed

lemma CalculateMounts_Inr:
  "CalculateMounts ms ps grid = Inr res \<Longrightarrow> res = concat (map (panel_mounts ms grid) ps)"
  using CalculateMounts_loop_Inr [of ms grid ps "[]" res] by (simp add: CalculateMounts_def)

lemma layout_of_panels_Inr:
  assumes "layout_of_panels cfg ps = Some (Inr ctx)"
  shows "\<exists>grid. BuildGrid (rafter_settings cfg) (Min (set (map panel_x ps)))
                  (Max (set (map RightEdge ps))) = Some (Inr grid)
           \<and> panels ctx = ps \<and> rafters ctx = positions grid
           \<and> mounts (result ctx) = concat (map (panel_mounts (mount_settings cfg) grid) ps)
           \<and> joints (result ctx) = CalculateJoints (joint_settings cfg) ps"
  using assms
  by (auto simp: layout_of_panels_def Let_def split: option.splits sum.splits
      dest: CalculateMounts_Inr)

lemma CalculateLayoutDetailed_Inr:
  assumes "CalculateLayoutDetailed cfg specs = Some (Inr ctx)"
  shows "\<exists>ps. BuildPanels (config_dimensions cfg) (validation cfg) specs = Inr ps \<and> ps \<noteq> []
           \<and> layout_of_panels cfg ps = Some (Inr ctx)"
  using assms
  by (auto simp: CalculateLayoutDetailed_def split: sum.splits if_splits)

lemma positions_eta: "\<lparr>positions = positions (grid :: RafterGrid)\<rparr> = grid"
  by simp

lemma BuildPanels_sorted:
  "BuildPanels dims v specs = Inr ps \<Longrightarrow> sorted (map (\<lambda>p. (panel_y p, panel_x p)) ps)"
  by (auto simp: BuildPanels_def split: sum.splits if_splits)

lemma panel_rafters_sorted:
  "sorted (positions grid) \<Longrightarrow> sorted (panel_rafters ms grid p)"
  by (simp add: panel_rafters_def PositionsInRange_def sorted_wrt_filter)

text \<open>
  C3: for every successful run of \<^verbatim>\<open>CalculateLayoutDetailed\<close>, whose context holds the
  validated panels and the positions of the built grid, every \<^verbatim>\<open>Mount.x\<close> of the result
  is one of these positions, and every \<^verbatim>\<open>Mount.y\<close> is the \<open>y\<close> of a returned panel (its
  top edge) or its \<open>y + height\<close> (its bottom edge).
\<close>

theorem C3_mounts_on_rafters_and_edges:
  assumes "CalculateLayoutDetailed cfg specs = Some (Inr ctx)"
  shows "BuildPanels (config_dimensions cfg) (validation cfg) specs = Inr (panels ctx)
       \<and> BuildGrid (rafter_settings cfg) (Min (set (map panel_x (panels ctx))))
           (Max (set (map RightEdge (panels ctx)))) = Some (Inr \<lparr>positions = rafters ctx\<rparr>)
       \<and> (\<forall>m\<in>set (mounts (result ctx)).
             mount_x m \<in> set (rafters ctx)
           \<and> (\<exists>p\<in>set (panels ctx). mount_y m = panel_y p \<or> mount_y m = panel_y p + panel_height p))"
proof -
  from CalculateLayoutDetailed_Inr [OF assms] obtain ps where
    ps: "BuildPanels (config_dimensions cfg) (validation cfg) specs = Inr ps"
    and lay: "layout_of_panels cfg ps = Some (Inr ctx)" by blast
  from layout_of_panels_Inr [OF lay] obtain grid where
    g: "BuildGrid (rafter_settings cfg) (Min (set (map panel_x ps)))
          (Max (set (map RightEdge ps))) = Some (Inr grid)"
    and c: "panels ctx = ps" "rafters ctx = positions grid"
       "mounts (result ctx) = concat (map (panel_mounts (mount_settings cfg) grid) ps)"
    by blast
  have "mount_x m \<in> set (rafters ctx)
      \<and> (\<exists>p\<in>set (panels ctx). mount_y m = panel_y p \<or> mount_y m = panel_y p + panel_height p)"
    if "m \<in> set (mounts (result ctx))" for m
  proof -
    from that c(3) obtain p where p: "p \<in> set ps" "m \<in> set (panel_mounts (mount_settings cfg) grid p)"
      by auto
    from p(2) have "mount_x m \<in> set (positions grid)"
      "mount_y m = panel_y p \<or> mount_y m = panel_y p + panel_height p"
      by (auto simp: panel_mounts_def panel_rafters_def PositionsInRange_def BottomEdge_def)
    with p(1) c show ?thesis by auto
  qed
  with ps g c show ?thesis by (simp add: positions_eta)
qed

lemma two_panels_layout:
  "CalculateLayoutDetailed default_config two_panels = Some (Inr
     \<lparr>result = \<lparr>mounts =
         [\<lparr>mount_x = 2, mount_y = 0\<rparr>, \<lparr>mount_x = 18, mount_y = 0\<rparr>, \<lparr>mount_x = 34, mount_y = 0\<rparr>,
          \<lparr>mount_x = 2, mount_y = 71.1\<rparr>, \<lparr>mount_x = 18, mount_y = 71.1\<rparr>,
          \<lparr>mount_x = 34, mount_y = 71.1\<rparr>,
          \<lparr>mount_x = 50, mount_y = 0\<rparr>, \<lparr>mount_x = 66, mount_y = 0\<rparr>, \<lparr>mount_x = 82, mount_y = 0\<rparr>,
          \<lparr>mount_x = 50, mount_y = 71.1\<rparr>, \<lparr>mount_x = 66, mount_y = 71.1\<rparr>,
          \<lparr>mount_x = 82, mount_y = 71.1\<rparr>],
        joints = [\<lparr>joint_x = 44.7, joint_y = 0\<rparr>, \<lparr>joint_x = 44.7, joint_y = 71.1\<rparr>]\<rparr>,
      panels = [\<lparr>panel_x = 0, panel_y = 0, panel_width = 44.7, panel_height = 71.1\<rparr>,
                \<lparr>panel_x = 44.7, panel_y = 0, panel_width = 44.7, panel_height = 71.1\<rparr>],
      rafters = [- 30, - 14, 2, 18, 34, 50, 66, 82, 98, 114]\<rparr>)"
  by code_simp

theorem C3_mounts_on_rafters_and_edges_witness:
  "\<exists>ctx. CalculateLayoutDetailed default_config two_panels = Some (Inr ctx)
     \<and> length (mounts (result ctx)) = 12
     \<and> BuildPanels (config_dimensions default_config) (validation default_config) two_panels
         = Inr (panels ctx)
     \<and> list_all (\<lambda>m. mount_x m \<in> set (rafters ctx)
           \<and> list_ex (\<lambda>p. mount_y m = panel_y p \<or> mount_y m = panel_y p + panel_height p)
                (panels ctx))
         (mounts (result ctx))"
proof -
  from two_panels_layout obtain ctx where
    ctx: "CalculateLayoutDetailed default_config two_panels = Some (Inr ctx)"
    and len: "length (mounts (result ctx)) = 12"
    by simp
  from C3_mounts_on_rafters_and_edges [OF ctx] ctx len show ?thesis
    by (auto simp: list_all_iff list_ex_iff)
qed

lemma two_panels_not_sorted:
  "\<exists>ctx. CalculateLayoutDetailed default_config two_panels = Some (Inr ctx)
     \<and> \<not> sorted (map (\<lambda>m. (mount_y m, mount_x m)) (mounts (result ctx)))"
  by (simp add: two_panels_layout)

text \<open>
  C9: on every successful run the panels are in \<open>(y, x)\<close> order and the mounts sequence is
  the concatenation, in that panel order, of one group per panel: the top-edge mounts at
  the panel's rafters, in ascending order of rafter \<open>x\<close>, followed by the bottom-edge
  mounts at the same rafters. Consequently there is a multi-panel input, two abutting
  panels in one row, whose mounts sequence is not sorted by \<open>(y, x)\<close>.
\<close>

theorem C9_mounts_grouped_by_panel:
  "(CalculateLayoutDetailed cfg specs = Some (Inr ctx) \<longrightarrow>
      sorted (map (\<lambda>p. (panel_y p, panel_x p)) (panels ctx))
    \<and> mounts (result ctx) =
        concat (map (\<lambda>p.
            map (\<lambda>v. \<lparr>mount_x = v, mount_y = panel_y p\<rparr>)
              (panel_rafters (mount_settings cfg) \<lparr>positions = rafters ctx\<rparr> p)
          @ map (\<lambda>v. \<lparr>mount_x = v, mount_y = panel_y p + panel_height p\<rparr>)
              (panel_rafters (mount_settings cfg) \<lparr>positions = rafters ctx\<rparr> p))
          (panels ctx))
    \<and> (\<forall>p\<in>set (panels ctx).
          sorted (panel_rafters (mount_settings cfg) \<lparr>positions = rafters ctx\<rparr> p)))
   \<and> (\<exists>ctx'. CalculateLayoutDetailed default_config two_panels = Some (Inr ctx')
         \<and> \<not> sorted (map (\<lambda>m. (mount_y m, mount_x m)) (mounts (result ctx'))))"
proof -
  have "sorted (map (\<lambda>p. (panel_y p, panel_x p)) (panels ctx))
    \<and> mounts (result ctx) =
        concat (map (\<lambda>p.
            map (\<lambda>v. \<lparr>mount_x = v, mount_y = panel_y p\<rparr>)
              (panel_rafters (mount_settings cfg) \<lparr>positions = rafters ctx\<rparr> p)
          @ map (\<lambda>v. \<lparr>mount_x = v, mount_y = panel_y p + panel_height p\<rparr>)
              (panel_rafters (mount_settings cfg) \<lparr>positions = rafters ctx\<rparr> p))
          (panels ctx))
    \<and> (\<forall>p\<in>set (panels ctx).
          sorted (panel_rafters (mount_settings cfg) \<lparr>positions = rafters ctx\<rparr> p))"
    if run: "CalculateLayoutDetailed cfg specs = Some (Inr ctx)"
  proof -
    from CalculateLayoutDetailed_Inr [OF run] obtain ps where
      ps: "BuildPanels (config_dimensions cfg) (validation cfg) specs = Inr ps"
      and lay: "layout_of_panels cfg ps = Some (Inr ctx)" by blast
    from layout_of_panels_Inr [OF lay] obtain grid where
      g: "BuildGrid (rafter_settings cfg) (Min (set (map panel_x ps)))
            (Max (set (map RightEdge ps))) = Some (Inr grid)"
      and c: "panels ctx = ps" "rafters ctx = positions grid"
         "mounts (result ctx) = concat (map (panel_mounts (mount_settings cfg) grid) ps)"
      by blast
    from c(2) have grid: "\<lparr>positions = rafters ctx\<rparr> = grid" by simp
    from BuildPanels_sorted [OF ps] c(1)
    have "sorted (map (\<lambda>p. (panel_y p, panel_x p)) (panels ctx))" by simp
    moreover from BuildGrid_sorted [OF g]
    have "\<forall>p\<in>set (panels ctx). sorted (panel_rafters (mount_settings cfg) grid p)"
      by (simp add: panel_rafters_sorted)
    moreover from c(1,3)
    have "mounts (result ctx) =
        concat (map (\<lambda>p.
            map (\<lambda>v. \<lparr>mount_x = v, mount_y = panel_y p\<rparr>)
              (panel_rafters (mount_settings cfg) grid p)
          @ map (\<lambda>v. \<lparr>mount_x = v, mount_y = panel_y p + panel_height p\<rparr>)
              (panel_rafters (mount_settings cfg) grid p))
          (panels ctx))"
      by (simp add: panel_mounts_def [abs_def] BottomEdge_def)
    ultimately show ?thesis unfolding grid by blast
  qed
  with two_panels_not_sorted show ?thesis by blast
qed

theorem C9_mounts_grouped_by_panel_witness:
  "\<exists>ctx. CalculateLayoutDetailed default_config two_panels = Some (Inr ctx)
     \<and> map (\<lambda>p. (panel_y p, panel_x p)) (panels ctx) = [(0, 0), (0, 44.7)]
     \<and> sorted (map (\<lambda>p. (panel_y p, panel_x p)) (panels ctx))
     \<and> mounts (result ctx) =
        concat (map (\<lambda>p.
            map (\<lambda>v. \<lparr>mount_x = v, mount_y = panel_y p\<rparr>)
              (panel_rafters (mount_settings default_config) \<lparr>positions = rafters ctx\<rparr> p)
          @ map (\<lambda>v. \<lparr>mount_x = v, mount_y = panel_y p + panel_height p\<rparr>)
              (panel_rafters (mount_settings default_config) \<lparr>positions = rafters ctx\<rparr> p))
          (panels ctx))
     \<and> map (panel_rafters (mount_settings default_config) \<lparr>positions = rafters ctx\<rparr>) (panels ctx)
         = [[2, 18, 34], [50, 66, 82]]
     \<and> list_all (\<lambda>p. sorted (panel_rafters (mount_settings default_config)
                                  \<lparr>positions = rafters ctx\<rparr> p)) (panels ctx)"
proof -
  from two_panels_layout obtain ctx where
    ctx: "CalculateLayoutDetailed default_config two_panels = Some (Inr ctx)"
    and p: "map (\<lambda>p. (panel_y p, panel_x p)) (panels ctx) = [(0, 0), (0, 44.7)]"
    and r: "map (panel_rafters (mount_settings default_config) \<lparr>positions = rafters ctx\<rparr>) (panels ctx)
         = [[2, 18, 34], [50, 66, 82]]"
    by (simp add: panel_rafters_def PositionsInRange_def default_config_def RightEdge_def)
  from C9_mounts_grouped_by_panel [of default_config two_panels ctx] ctx p r show ?thesis
    by (simp add: list_all_iff)
qed

subsection \<open>The empty-input error and the pipeline\<close>

lemma CalculatePanelMounts_length:
  "CalculatePanelMounts ms p grid = Inr pm \<Longrightarrow> 2 \<le> length pm"
proof -
  assume a: "CalculatePanelMounts ms p grid = Inr pm"
  let ?rs = "PositionsInRange grid (panel_x p + mount_edge_clearance ms)
               (RightEdge p - mount_edge_clearance ms)"
  from a have "?rs \<noteq> []" and "length pm = length ?rs + length ?rs"
    by (auto simp: CalculatePanelMounts_def Let_def split: if_splits)
  moreover from \<open>?rs \<noteq> []\<close> have "1 \<le> length ?rs" by (cases ?rs) simp_all
  ultimately show ?thesis by linarith
qed

lemma CalculateMounts_loop_length:
  "CalculateMounts_loop ms grid ps acc = Inr res \<Longrightarrow> length acc + 2 * length ps \<le> length res"
proof (induction ps arbitrary: acc)
  case Nil
  then show ?case by simp
next
  case (Cons p rest)
  from Cons.prems obtain pm where
    pm: "CalculatePanelMounts ms p grid = Inr pm"
    and rest: "CalculateMounts_loop ms grid rest (acc @ pm) = Inr res"
    by (auto split: sum.splits)
  from Cons.IH [OF rest] CalculatePanelMounts_length [OF pm] show ?case by simp
qed

lemma CalculateMounts_length:
  "CalculateMounts ms ps grid = Inr res \<Longrightarrow> 2 * length ps \<le> length res"
  using CalculateMounts_loop_length [of ms grid ps "[]" res] by (simp add: CalculateMounts_def)

text \<open>
  C7: \<^verbatim>\<open>CalculateLayoutDetailed\<close>, and therefore \<^verbatim>\<open>CalculateLayout\<close>, raises the
  \<^verbatim>\<open>LayoutValidationError\<close> "At least one panel must be supplied." exactly when the
  validated panel list is empty, which is exactly when the spec sequence is empty. For a
  validated panel list \<open>ps\<close> that is not empty it does not raise that error: its outcome is
  that of \<^verbatim>\<open>BuildGrid\<close> on the extent of \<open>ps\<close>, then of \<^verbatim>\<open>CalculateMounts\<close> on \<open>ps\<close> and the
  grid, and on success the context holds \<open>ps\<close>, the positions of that grid, the mounts
  \<^verbatim>\<open>CalculateMounts\<close> returned (at least two for each panel) and the joints
  \<^verbatim>\<open>CalculateJoints\<close> returns for \<open>ps\<close>.
\<close>

theorem C7_no_panels_iff_empty:
  "(CalculateLayoutDetailed cfg specs = Some (Inl (LayoutValidationError NoPanels)))
     = (BuildPanels (config_dimensions cfg) (validation cfg) specs = Inr [])
   \<and> (BuildPanels (config_dimensions cfg) (validation cfg) specs = Inr []) = (specs = [])
   \<and> (CalculateLayout cfg specs = Some (Inl (LayoutValidationError NoPanels))) = (specs = [])
   \<and> (\<forall>ps. BuildPanels (config_dimensions cfg) (validation cfg) specs = Inr ps \<and> ps \<noteq> [] \<longrightarrow>
          CalculateLayoutDetailed cfg specs \<noteq> Some (Inl (LayoutValidationError NoPanels))
        \<and> CalculateLayoutDetailed cfg specs =
            (case BuildGrid (rafter_settings cfg) (Min (set (map panel_x ps)))
                    (Max (set (map RightEdge ps))) of
               None \<Rightarrow> None
             | Some (Inl e) \<Rightarrow> Some (Inl e)
             | Some (Inr grid) \<Rightarrow>
                 (case CalculateMounts (mount_settings cfg) ps grid of
                    Inl e \<Rightarrow> Some (Inl e)
                  | Inr ms \<Rightarrow>
                      Some (Inr \<lparr>result = \<lparr>mounts = ms,
                                            joints = CalculateJoints (joint_settings cfg) ps\<rparr>,
                                 panels = ps, rafters = positions grid\<rparr>)))
        \<and> (\<forall>ctx. CalculateLayoutDetailed cfg specs = Some (Inr ctx) \<longrightarrow>
              panels ctx = ps
            \<and> BuildGrid (rafter_settings cfg) (Min (set (map panel_x ps)))
                 (Max (set (map RightEdge ps))) = Some (Inr \<lparr>positions = rafters ctx\<rparr>)
            \<and> CalculateMounts (mount_settings cfg) ps \<lparr>positions = rafters ctx\<rparr>
                 = Inr (mounts (result ctx))
            \<and> joints (result ctx) = CalculateJoints (joint_settings cfg) ps
            \<and> 2 * length ps \<le> MountCount (result ctx)))"
proof -
  let ?B = "BuildPanels (config_dimensions cfg) (validation cfg) specs"
  have a: "(?B = Inr []) = (specs = [])"
    using BuildPanels_length [of _ _ specs "[]"] by (auto simp: BuildPanels_Nil)
  have b: "(CalculateLayoutDetailed cfg specs = Some (Inl (LayoutValidationError NoPanels)))
         = (?B = Inr [])"
  proof (cases ?B)
    case (Inl e)
    with BuildPanels_not_NoPanels [of _ _ specs] show ?thesis
      by (auto simp: CalculateLayoutDetailed_def)
  next
    case (Inr ps)
    then show ?thesis
      using layout_of_panels_not_NoPanels [of cfg ps]
      by (cases "ps = []") (simp_all add: CalculateLayoutDetailed_def)
  qed
  have c: "(CalculateLayout cfg specs = Some (Inl (LayoutValidationError NoPanels)))
         = (CalculateLayoutDetailed cfg specs = Some (Inl (LayoutValidationError NoPanels)))"
    by (auto simp: CalculateLayout_def split: option.splits sum.splits)
  have d: "CalculateLayoutDetailed cfg specs \<noteq> Some (Inl (LayoutValidationError NoPanels))
        \<and> CalculateLayoutDetailed cfg specs =
            (case BuildGrid (rafter_settings cfg) (Min (set (map panel_x ps)))
                    (Max (set (map RightEdge ps))) of
               None \<Rightarrow> None
             | Some (Inl e) \<Rightarrow> Some (Inl e)
             | Some (Inr grid) \<Rightarrow>
                 (case CalculateMounts (mount_settings cfg) ps grid of
                    Inl e \<Rightarrow> Some (Inl e)
                  | Inr ms \<Rightarrow>
                      Some (Inr \<lparr>result = \<lparr>mounts = ms,
                                            joints = CalculateJoints (joint_settings cfg) ps\<rparr>,
                                 panels = ps, rafters = positions grid\<rparr>)))
        \<and> (\<forall>ctx. CalculateLayoutDetailed cfg specs = Some (Inr ctx) \<longrightarrow>
              panels ctx = ps
            \<and> BuildGrid (rafter_settings cfg) (Min (set (map panel_x ps)))
                 (Max (set (map RightEdge ps))) = Some (Inr \<lparr>positions = rafters ctx\<rparr>)
            \<and> CalculateMounts (mount_settings cfg) ps \<lparr>positions = rafters ctx\<rparr>
                 = Inr (mounts (result ctx))
            \<and> joints (result ctx) = CalculateJoints (joint_settings cfg) ps
            \<and> 2 * length ps \<le> MountCount (result ctx))"
    if ps: "?B = Inr ps" "ps \<noteq> []" for ps
  proof -
    from ps have run: "CalculateLayoutDetailed cfg specs = layout_of_panels cfg ps"
      by (simp add: CalculateLayoutDetailed_def)
    have d1: "CalculateLayoutDetailed cfg specs \<noteq> Some (Inl (LayoutValidationError NoPanels))"
      using layout_of_panels_not_NoPanels [of cfg ps] run by simp
    have d2: "CalculateLayoutDetailed cfg specs =
            (case BuildGrid (rafter_settings cfg) (Min (set (map panel_x ps)))
                    (Max (set (map RightEdge ps))) of
               None \<Rightarrow> None
             | Some (Inl e) \<Rightarrow> Some (Inl e)
             | Some (Inr grid) \<Rightarrow>
                 (case CalculateMounts (mount_settings cfg) ps grid of
                    Inl e \<Rightarrow> Some (Inl e)
                  | Inr ms \<Rightarrow>
                      Some (Inr \<lparr>result = \<lparr>mounts = ms,
                                            joints = CalculateJoints (joint_settings cfg) ps\<rparr>,
                                 panels = ps, rafters = positions grid\<rparr>)))"
      unfolding run by (simp add: layout_of_panels_def Let_def)
    have d3: "panels ctx = ps
            \<and> BuildGrid (rafter_settings cfg) (Min (set (map panel_x ps)))
                 (Max (set (map RightEdge ps))) = Some (Inr \<lparr>positions = rafters ctx\<rparr>)
            \<and> CalculateMounts (mount_settings cfg) ps \<lparr>positions = rafters ctx\<rparr>
                 = Inr (mounts (result ctx))
            \<and> joints (result ctx) = CalculateJoints (joint_settings cfg) ps
            \<and> 2 * length ps \<le> MountCount (result ctx)"
      if "CalculateLayoutDetailed cfg specs = Some (Inr ctx)" for ctx
    proof -
      from that d2 obtain grid ms where
        g: "BuildGrid (rafter_settings cfg) (Min (set (map panel_x ps)))
              (Max (set (map RightEdge ps))) = Some (Inr grid)"
        and m: "CalculateMounts (mount_settings cfg) ps grid = Inr ms"
        and ctx: "ctx = \<lparr>result = \<lparr>mounts = ms,
                                    joints = CalculateJoints (joint_settings cfg) ps\<rparr>,
                         panels = ps, rafters = positions grid\<rparr>"
        by (auto split: option.splits sum.splits)
      from CalculateMounts_length [OF m] g m ctx show ?thesis
        by (simp add: MountCount_def positions_eta)
    qed
    from d1 d2 d3 show ?thesis by blast
  qed
  from a b c d show ?thesis by (simp only: simp_thms) blast
qed

theorem C7_no_panels_iff_empty_witness:
  "BuildPanels (config_dimensions default_config) (validation default_config) two_panels
     = Inr [panel_at 0 0, panel_at 44.7 0]
   \<and> [panel_at 0 0, panel_at 44.7 0] \<noteq> []
   \<and> CalculateLayoutDetailed default_config two_panels
       \<noteq> Some (Inl (LayoutValidationError NoPanels))
   \<and> CalculateLayoutDetailed default_config two_panels = Some (Inr
       \<lparr>result = \<lparr>mounts =
           [\<lparr>mount_x = 2, mount_y = 0\<rparr>, \<lparr>mount_x = 18, mount_y = 0\<rparr>, \<lparr>mount_x = 34, mount_y = 0\<rparr>,
            \<lparr>mount_x = 2, mount_y = 71.1\<rparr>, \<lparr>mount_x = 18, mount_y = 71.1\<rparr>,
            \<lparr>mount_x = 34, mount_y = 71.1\<rparr>,
            \<lparr>mount_x = 50, mount_y = 0\<rparr>, \<lparr>mount_x = 66, mount_y = 0\<rparr>, \<lparr>mount_x = 82, mount_y = 0\<rparr>,
            \<lparr>mount_x = 50, mount_y = 71.1\<rparr>, \<lparr>mount_x = 66, mount_y = 71.1\<rparr>,
            \<lparr>mount_x = 82, mount_y = 71.1\<rparr>],
          joints = [\<lparr>joint_x = 44.7, joint_y = 0\<rparr>, \<lparr>joint_x = 44.7, joint_y = 71.1\<rparr>]\<rparr>,
        panels = [panel_at 0 0, panel_at 44.7 0],
        rafters = [- 30, - 14, 2, 18, 34, 50, 66, 82, 98, 114]\<rparr>)
   \<and> CalculateLayoutDetailed default_config [] = Some (Inl (LayoutValidationError NoPanels))
   \<and> CalculateLayout default_config [] = Some (Inl (LayoutValidationError NoPanels))"
proof -
  let ?ps = "[panel_at 0 0, panel_at 44.7 0]"
  have h: "BuildPanels (config_dimensions default_config) (validation default_config) two_panels
     = Inr ?ps"
    by code_simp
  have e: "(case BuildGrid (rafter_settings default_config) (Min (set (map panel_x ?ps)))
                    (Max (set (map RightEdge ?ps))) of
               None \<Rightarrow> None
             | Some (Inl e) \<Rightarrow> Some (Inl e)
             | Some (Inr grid) \<Rightarrow>
                 (case CalculateMounts (mount_settings default_config) ?ps grid of
                    Inl e \<Rightarrow> Some (Inl e)
                  | Inr ms \<Rightarrow>
                      Some (Inr \<lparr>result = \<lparr>mounts = ms,
                                            joints = CalculateJoints (joint_settings default_config) ?ps\<rparr>,
                                 panels = ?ps, rafters = positions grid\<rparr>)))
      = Some (Inr
       \<lparr>result = \<lparr>mounts =
           [\<lparr>mount_x = 2, mount_y = 0\<rparr>, \<lparr>mount_x = 18, mount_y = 0\<rparr>, \<lparr>mount_x = 34, mount_y = 0\<rparr>,
            \<lparr>mount_x = 2, mount_y = 71.1\<rparr>, \<lparr>mount_x = 18, mount_y = 71.1\<rparr>,
            \<lparr>mount_x = 34, mount_y = 71.1\<rparr>,
            \<lparr>mount_x = 50, mount_y = 0\<rparr>, \<lparr>mount_x = 66, mount_y = 0\<rparr>, \<lparr>mount_x = 82, mount_y = 0\<rparr>,
            \<lparr>mount_x = 50, mount_y = 71.1\<rparr>, \<lparr>mount_x = 66, mount_y = 71.1\<rparr>,
            \<lparr>mount_x = 82, mount_y = 71.1\<rparr>],
          joints = [\<lparr>joint_x = 44.7, joint_y = 0\<rparr>, \<lparr>joint_x = 44.7, joint_y = 71.1\<rparr>]\<rparr>,
        panels = ?ps,
        rafters = [- 30, - 14, 2, 18, 34, 50, 66, 82, 98, 114]\<rparr>)"
    by code_simp
  have ne: "?ps \<noteq> []" by simp
  from C7_no_panels_iff_empty [of default_config two_panels] h ne
  have a: "CalculateLayoutDetailed default_config two_panels
       \<noteq> Some (Inl (LayoutValidationError NoPanels))"
    and b: "CalculateLayoutDetailed default_config two_panels =
            (case BuildGrid (rafter_settings default_config) (Min (set (map panel_x ?ps)))
                    (Max (set (map RightEdge ?ps))) of
               None \<Rightarrow> None
             | Some (Inl e) \<Rightarrow> Some (Inl e)
             | Some (Inr grid) \<Rightarrow>
                 (case CalculateMounts (mount_settings default_config) ?ps grid of
                    Inl e \<Rightarrow> Some (Inl e)
                  | Inr ms \<Rightarrow>
                      Some (Inr \<lparr>result = \<lparr>mounts = ms,
                                            joints = CalculateJoints (joint_settings default_config) ?ps\<rparr>,
                                 panels = ?ps, rafters = positions grid\<rparr>)))"
    by blast+
  from C7_no_panels_iff_empty [of default_config "[]"]
  have c: "CalculateLayoutDetailed default_config [] = Some (Inl (LayoutValidationError NoPanels))"
    "CalculateLayout default_config [] = Some (Inl (LayoutValidationError NoPanels))"
    by blast+
  from h ne a b [unfolded e] c show ?thesis by blast
qed

subsection \<open>The gap threshold of the joints\<close>

lemma store_joint_values:
  "well_keyed js \<Longrightarrow>
     well_keyed (store_joint j js) \<and> snd ` set (store_joint j js) = insert j (snd ` set js)"
proof (induction js)
  case Nil
  then show ?case by (simp add: well_keyed_def store_joint_def)
next
  case (Cons e js)
  obtain k j' where e: "e = (k, j')" by (cases e)
  from Cons.prems e have k: "k = (joint_x j', joint_y j')" and wk: "well_keyed js"
    by (auto simp: well_keyed_def)
  show ?case
  proof (cases "k = (joint_x j, joint_y j)")
    case True
    with k have "j' = j" by simp
    with True e wk Cons.prems show ?thesis
      by (auto simp: well_keyed_def store_joint_def)
  next
    case False
    with Cons.IH [OF wk] e k show ?thesis
      by (auto simp: well_keyed_def store_joint_def)
  qed
qed

lemma pair_step_stores:
  "pair_step threshold row_key lr js = fold store_joint (pair_joints threshold row_key lr) js"
  by (simp add: pair_step_def pair_joints_def store_joint_def Let_def)

lemma fold_store_joint_values:
  "well_keyed js \<Longrightarrow>
     well_keyed (fold store_joint new js)
     \<and> snd ` set (fold store_joint new js) = snd ` set js \<union> set new"
proof (induction new arbitrary: js)
  case Nil
  then show ?case by simp
next
  case (Cons j new)
  from store_joint_values [OF Cons.prems, of j]
  have wk: "well_keyed (store_joint j js)"
    and v: "snd ` set (store_joint j js) = insert j (snd ` set js)" by simp_all
  from Cons.IH [OF wk] v show ?case by auto
qed

lemma fold_pair_step_values:
  "well_keyed js \<Longrightarrow>
     well_keyed (fold (pair_step threshold row_key) pairs js)
     \<and> snd ` set (fold (pair_step threshold row_key) pairs js)
         = snd ` set js \<union> (\<Union>lr\<in>set pairs. set (pair_joints threshold row_key lr))"
proof (induction pairs arbitrary: js)
  case Nil
  then show ?case by simp
next
  case (Cons lr pairs)
  from fold_store_joint_values [OF Cons.prems, of "pair_joints threshold row_key lr"]
  have wk: "well_keyed (pair_step threshold row_key lr js)"
    and v: "snd ` set (pair_step threshold row_key lr js)
            = snd ` set js \<union> set (pair_joints threshold row_key lr)"
    by (simp_all add: pair_step_stores)
  from Cons.IH [OF wk] v show ?case by auto
qed

lemma fold_row_step_values:
  "well_keyed js \<Longrightarrow>
     well_keyed (fold (row_step threshold) rows js)
     \<and> snd ` set (fold (row_step threshold) rows js)
         = snd ` set js
           \<union> (\<Union>kv\<in>set rows. \<Union>lr\<in>set (row_pairs (snd kv)). set (pair_joints threshold (fst kv) lr))"
proof (induction rows arbitrary: js)
  case Nil
  then show ?case by simp
next
  case (Cons kv rows)
  from fold_pair_step_values [OF Cons.prems, of threshold "fst kv" "row_pairs (snd kv)"]
  have wk: "well_keyed (row_step threshold kv js)"
    and v: "snd ` set (row_step threshold kv js)
            = snd ` set js \<union> (\<Union>lr\<in>set (row_pairs (snd kv)). set (pair_joints threshold (fst kv) lr))"
    by (simp_all add: row_step_def row_pairs_def Let_def)
  from Cons.IH [OF wk] v show ?case by auto
qed

lemma CalculateJoints_set:
  "set (CalculateJoints jset ps)
     = (\<Union>kv\<in>set (group_rows (vertical_tolerance jset) ps []).
          \<Union>lr\<in>set (row_pairs (snd kv)).
            set (pair_joints (horizontal_gap_threshold jset) (fst kv) lr))"
  using fold_row_step_values [of "[]" "horizontal_gap_threshold jset"
      "group_rows (vertical_tolerance jset) ps []"]
  by (simp add: CalculateJoints_def Let_def well_keyed_def)

lemma two_panel_rows:
  "\<bar>panel_y left - panel_y right\<bar> \<le> tolerance \<Longrightarrow>
     group_rows tolerance [left, right] [] = [(panel_y left, [left, right])]"
  by (simp add: row_append_def FindRowKey_def)

lemma two_panel_pairs:
  "panel_x left \<le> panel_x right \<Longrightarrow> row_pairs [left, right] = [(left, right)]"
  by (simp add: row_pairs_def)

text \<open>
  C4: the joints returned by \<^verbatim>\<open>CalculateJoints\<close> are exactly those contributed by the
  adjacent pairs \<open>(left, right)\<close> of the rows, where a pair with
  \<open>gap = right.x - left.RightEdge() \<ge> horizontal_gap_threshold\<close> contributes no joint (the
  loop body leaves the joint map as it is) and a pair with a gap strictly below the
  threshold contributes its top and its bottom joint. In particular two panels of one row
  yield the empty list when the gap is at least the threshold (so when it equals the
  default threshold 1.0), and their two seam joints when it is below.
\<close>

theorem C4_gap_threshold:
  "set (CalculateJoints jset ps)
     = (\<Union>kv\<in>set (group_rows (vertical_tolerance jset) ps []).
          \<Union>lr\<in>set (row_pairs (snd kv)).
            set (pair_joints (horizontal_gap_threshold jset) (fst kv) lr))
   \<and> (horizontal_gap_threshold jset \<le> panel_x right - RightEdge left \<longrightarrow>
          pair_joints (horizontal_gap_threshold jset) row_key (left, right) = []
        \<and> pair_step (horizontal_gap_threshold jset) row_key (left, right) js = js)
   \<and> (panel_x right - RightEdge left < horizontal_gap_threshold jset \<longrightarrow>
          pair_joints (horizontal_gap_threshold jset) row_key (left, right)
            = [\<lparr>joint_x = round4 ((RightEdge left + panel_x right) / 2), joint_y = round4 row_key\<rparr>,
               \<lparr>joint_x = round4 ((RightEdge left + panel_x right) / 2),
                joint_y = round4 (row_key + panel_height left)\<rparr>])
   \<and> (\<bar>panel_y left - panel_y right\<bar> \<le> vertical_tolerance jset \<and> panel_x left \<le> panel_x right \<longrightarrow>
          (horizontal_gap_threshold jset \<le> panel_x right - RightEdge left \<longrightarrow>
             CalculateJoints jset [left, right] = [])
        \<and> (panel_x right - RightEdge left < horizontal_gap_threshold jset \<longrightarrow>
             set (CalculateJoints jset [left, right])
               = {\<lparr>joint_x = round4 ((RightEdge left + panel_x right) / 2),
                   joint_y = round4 (panel_y left)\<rparr>,
                  \<lparr>joint_x = round4 ((RightEdge left + panel_x right) / 2),
                   joint_y = round4 (panel_y left + panel_height left)\<rparr>}))"
proof -
  let ?thr = "horizontal_gap_threshold jset"
  have a: "pair_joints ?thr row_key (left, right) = []
         \<and> pair_step ?thr row_key (left, right) js = js"
    if "?thr \<le> panel_x right - RightEdge left"
    using that by (simp add: pair_joints_def pair_step_def)
  have b: "pair_joints ?thr row_key (left, right)
            = [\<lparr>joint_x = round4 ((RightEdge left + panel_x right) / 2), joint_y = round4 row_key\<rparr>,
               \<lparr>joint_x = round4 ((RightEdge left + panel_x right) / 2),
                joint_y = round4 (row_key + panel_height left)\<rparr>]"
    if "panel_x right - RightEdge left < ?thr" for row_key
    using that by (simp add: pair_joints_def Let_def)
  have c: "set (CalculateJoints jset [left, right])
         = set (pair_joints ?thr (panel_y left) (left, right))"
    if "\<bar>panel_y left - panel_y right\<bar> \<le> vertical_tolerance jset" "panel_x left \<le> panel_x right"
    unfolding CalculateJoints_set two_panel_rows [OF that(1)]
    by (simp add: two_panel_pairs [OF that(2)])
  have d: "CalculateJoints jset [left, right] = []"
    if "\<bar>panel_y left - panel_y right\<bar> \<le> vertical_tolerance jset" "panel_x left \<le> panel_x right"
       "?thr \<le> panel_x right - RightEdge left"
    using c [OF that(1,2)] that(3) by (simp add: pair_joints_def)
  have e: "set (CalculateJoints jset [left, right])
               = {\<lparr>joint_x = round4 ((RightEdge left + panel_x right) / 2),
                   joint_y = round4 (panel_y left)\<rparr>,
                  \<lparr>joint_x = round4 ((RightEdge left + panel_x right) / 2),
                   joint_y = round4 (panel_y left + panel_height left)\<rparr>}"
    if "\<bar>panel_y left - panel_y right\<bar> \<le> vertical_tolerance jset" "panel_x left \<le> panel_x right"
       "panel_x right - RightEdge left < ?thr"
    using c [OF that(1,2)] b [OF that(3), of "panel_y left"] by simp
  from CalculateJoints_set [of jset ps] a b d e show ?thesis by blast
qed

theorem C4_gap_threshold_witness:
  "horizontal_gap_threshold default_joints = 45.7 - RightEdge (panel_at 0 0)
   \<and> CalculateJoints default_joints [panel_at 0 0, panel_at 45.7 0] = []
   \<and> 45.2 - RightEdge (panel_at 0 0) < horizontal_gap_threshold default_joints
   \<and> set (CalculateJoints default_joints [panel_at 0 0, panel_at 45.2 0])
       = {\<lparr>joint_x = 44.95, joint_y = 0\<rparr>, \<lparr>joint_x = 44.95, joint_y = 71.1\<rparr>}"
proof -
  from C4_gap_threshold [where jset = default_joints and ps = "[]" and left = "panel_at 0 0"
      and right = "panel_at 45.7 0" and row_key = 0 and js = "[]"]
  have a: "CalculateJoints default_joints [panel_at 0 0, panel_at 45.7 0] = []"
    by (simp add: default_joints_def panel_at_def RightEdge_def)
  from C4_gap_threshold [where jset = default_joints and ps = "[]" and left = "panel_at 0 0"
      and right = "panel_at 45.2 0" and row_key = 0 and js = "[]"]
  have b: "set (CalculateJoints default_joints [panel_at 0 0, panel_at 45.2 0])
       = {\<lparr>joint_x = 44.95, joint_y = 0\<rparr>, \<lparr>joint_x = 44.95, joint_y = 71.1\<rparr>}"
    by (simp add: default_joints_def panel_at_def RightEdge_def round4_def py_round_def Let_def)
  from a b show ?thesis
    by (simp add: default_joints_def panel_at_def RightEdge_def)
qed

subsection \<open>The order of the input specs\<close>

lemma RectanglesOverlap_sym:
  "RectanglesOverlap first second tolerance = RectanglesOverlap second first tolerance"
  by (auto simp: RectanglesOverlap_def)

lemma ValidateNoOverlap_iff:
  "ValidateNoOverlap ps tolerance = Inr ()
     \<longleftrightarrow> sorted_wrt (\<lambda>first second. \<not> RectanglesOverlap first second tolerance) ps"
  by (induction ps) (auto simp: find_None_iff split: option.splits dest: find_Some_iff [THEN iffD1] nth_mem)

lemma sorted_wrt_sym_mset:
  assumes sym: "\<And>a b. P a b \<Longrightarrow> P b a"
  shows "mset xs = mset ys \<Longrightarrow> sorted_wrt P xs \<Longrightarrow> sorted_wrt P ys"
proof (induction xs arbitrary: ys)
  case Nil
  then show ?case by simp
next
  case (Cons x xs)
  from Cons.prems(1) have "x \<in> set ys"
    by (metis list.set_intros(1) mset_eq_setD)
  then obtain as bs where ys: "ys = as @ x # bs" by (auto dest: split_list)
  with Cons.prems(1) have m: "mset xs = mset (as @ bs)" by simp
  from Cons.prems(2) have px: "\<forall>y\<in>set xs. P x y" and sx: "sorted_wrt P xs" by simp_all
  from Cons.IH [OF m sx] have s: "sorted_wrt P (as @ bs)" .
  from m have "set xs = set (as @ bs)" by (rule mset_eq_setD)
  with px have "\<forall>y\<in>set as \<union> set bs. P x y" by simp
  with s sym show ?case unfolding ys by (auto simp: sorted_wrt_append)
qed

lemma ValidateNoOverlap_mset:
  assumes "mset ps = mset qs" "ValidateNoOverlap ps tolerance = Inr ()"
  shows "ValidateNoOverlap qs tolerance = Inr ()"
proof -
  have "sorted_wrt (\<lambda>first second. \<not> RectanglesOverlap first second tolerance) qs"
  proof (rule sorted_wrt_sym_mset [OF _ assms(1)])
    show "\<not> RectanglesOverlap b a tolerance" if "\<not> RectanglesOverlap a b tolerance" for a b
      using that by (simp add: RectanglesOverlap_sym [of a b])
    show "sorted_wrt (\<lambda>first second. \<not> RectanglesOverlap first second tolerance) ps"
      using assms(2) by (simp add: ValidateNoOverlap_iff)
  qed
  then show ?thesis by (simp add: ValidateNoOverlap_iff)
qed

lemma spec_panel_key_inj:
  "inj_on (\<lambda>p. (panel_y p, panel_x p)) (set (map (spec_panel dims) specs))"
  by (auto simp: inj_on_def spec_panel_def)

lemma BuildPanels_loop_mset:
  assumes "mset specs' = mset specs" "BuildPanels_loop dims v specs [] {} = Inr ps"
  shows "BuildPanels_loop dims v specs' [] {} = Inr (map (spec_panel dims) specs')
       \<and> ps = map (spec_panel dims) specs"
proof -
  from assms(2) have ok: "\<forall>item\<in>set specs. spec_ok v item"
    and d: "\<not> allow_duplicates v \<longrightarrow> distinct (map (spec_key v) specs)"
    and ps: "ps = map (spec_panel dims) specs"
    by (simp_all add: BuildPanels_loop_iff)
  from assms(1) have "set specs' = set specs" by (rule mset_eq_setD)
  with ok have ok': "\<forall>item\<in>set specs'. spec_ok v item" by simp
  from assms(1) have "mset (map (spec_key v) specs') = mset (map (spec_key v) specs)" by simp
  then have "distinct (map (spec_key v) specs') = distinct (map (spec_key v) specs)"
    by (rule mset_eq_imp_distinct_iff)
  with d have d': "\<not> allow_duplicates v \<longrightarrow> distinct (map (spec_key v) specs')" by simp
  from ok' d' ps show ?thesis by (simp add: BuildPanels_loop_iff)
qed

lemma BuildPanels_mset:
  assumes "mset specs' = mset specs" "BuildPanels dims v specs = Inr ps"
  shows "BuildPanels dims v specs' = Inr ps"
proof -
  from assms(2) obtain qs where
    loop: "BuildPanels_loop dims v specs [] {} = Inr qs"
    and ov: "\<not> allow_overlaps v \<longrightarrow> ValidateNoOverlap qs (coordinate_tolerance v) = Inr ()"
    and ps: "ps = sort_key (\<lambda>p. (panel_y p, panel_x p)) qs"
    by (auto simp: BuildPanels_def split: sum.splits if_splits)
  let ?qs' = "map (spec_panel dims) specs'"
  from BuildPanels_loop_mset [OF assms(1) loop]
  have loop': "BuildPanels_loop dims v specs' [] {} = Inr ?qs'"
    and qs: "qs = map (spec_panel dims) specs" by simp_all
  from assms(1) qs have m: "mset qs = mset ?qs'" by simp
  from ov ValidateNoOverlap_mset [OF m]
  have ov': "\<not> allow_overlaps v \<longrightarrow> ValidateNoOverlap ?qs' (coordinate_tolerance v) = Inr ()"
    by blast
  have "sort_key (\<lambda>p. (panel_y p, panel_x p)) qs = sort_key (\<lambda>p. (panel_y p, panel_x p)) ?qs'"
    using m spec_panel_key_inj [of dims specs] unfolding qs
    by (rule sort_key_eq_sort_key)
  with loop' ov' ps show ?thesis
    by (auto simp: BuildPanels_def)
qed

lemma CalculateLayoutDetailed_mset:
  assumes "mset specs' = mset specs" "CalculateLayoutDetailed cfg specs = Some (Inr ctx)"
  shows "CalculateLayoutDetailed cfg specs' = Some (Inr ctx)"
proof -
  from assms(2) obtain ps where
    ps: "BuildPanels (config_dimensions cfg) (validation cfg) specs = Inr ps" "ps \<noteq> []"
    and lay: "layout_of_panels cfg ps = Some (Inr ctx)"
    by (auto simp: CalculateLayoutDetailed_def split: sum.splits if_splits)
  from BuildPanels_mset [OF assms(1) ps(1)] ps(2) lay show ?thesis
    by (simp add: CalculateLayoutDetailed_def)
qed

text \<open>
  C5: for every spec list accepted by \<^verbatim>\<open>CalculateLayout\<close>, every permutation of the specs
  (the same specs with the same multiplicities, in any order; in particular the left and
  the right panel of an adjacent pair swapped) is accepted too and yields the same result,
  hence the same joints.
\<close>

theorem C5_permutation_invariant:
  assumes "mset specs' = mset specs" "CalculateLayout cfg specs = Some (Inr r)"
  shows "\<exists>r'. CalculateLayout cfg specs' = Some (Inr r')
           \<and> set (joints r') = set (joints r) \<and> joints r' = joints r \<and> r' = r"
proof -
  from assms(2) obtain ctx where
    ctx: "CalculateLayoutDetailed cfg specs = Some (Inr ctx)" and r: "r = result ctx"
    by (auto simp: CalculateLayout_def split: option.splits sum.splits)
  from CalculateLayoutDetailed_mset [OF assms(1) ctx] r
  have "CalculateLayout cfg specs' = Some (Inr r)"
    by (simp add: CalculateLayout_def)
  then show ?thesis by simp
qed

lemma two_panels_result:
  "\<exists>r. CalculateLayout default_config two_panels = Some (Inr r)
     \<and> joints r = [\<lparr>joint_x = 44.7, joint_y = 0\<rparr>, \<lparr>joint_x = 44.7, joint_y = 71.1\<rparr>]"
  by (simp add: CalculateLayout_def two_panels_layout)

theorem C5_permutation_invariant_witness:
  "mset [point_spec 44.7 0, point_spec 0 0] = mset two_panels
   \<and> (\<exists>r. CalculateLayout default_config two_panels = Some (Inr r)
        \<and> CalculateLayout default_config [point_spec 44.7 0, point_spec 0 0] = Some (Inr r)
        \<and> joints r = [\<lparr>joint_x = 44.7, joint_y = 0\<rparr>, \<lparr>joint_x = 44.7, joint_y = 71.1\<rparr>])"
proof -
  have m: "mset [point_spec 44.7 0, point_spec 0 0] = mset two_panels"
    by (simp add: two_panels_def)
  from two_panels_result obtain r where
    r: "CalculateLayout default_config two_panels = Some (Inr r)"
    and j: "joints r = [\<lparr>joint_x = 44.7, joint_y = 0\<rparr>, \<lparr>joint_x = 44.7, joint_y = 71.1\<rparr>]"
    by blast
  from C5_permutation_invariant [OF m r] r j m show ?thesis by auto
qed

end
